theory Spec2Isabelle
  imports Main "HOL-Library.Word"
begin

section \<open>JavaScript values\<close>

text \<open>
  A JavaScript string is a sequence of UTF-16 code units: \<open>length\<close>, \<open>substring\<close>,
  \<open>startsWith\<close>, \<open>includes\<close> and \<open>trim\<close> all count and compare code units.
  \<open>js\<close> embeds an ASCII literal of the source.
\<close>

type_synonym jsstring = "16 word list"

definition js :: "string \<Rightarrow> jsstring" where
  "js s = map (\<lambda>c. of_nat (of_char c)) s"

text \<open>
  The program never computes with numbers: it tests them for truthiness and serializes
  them. A number is therefore carried as what these two operations see: \<open>NaN\<close>, an
  infinity, a zero (\<open>+0\<close> or \<open>-0\<close>), or a finite nonzero number given by its decimal
  text (the result of \<open>Number.prototype.toString\<close>).
\<close>

datatype jsnum = NaN | Infinite | Zero | Nonzero jsstring

text \<open>
  The values the stage functions receive: \<open>undefined\<close>, the values of JSON, and
  BigInt (with \<open>0n\<close>, every falsy value of the language is then a value of the model).
  An object is the list of its own properties in enumeration order, with distinct keys.
\<close>

datatype jsval =
    JUndefined
  | JNull
  | JBool bool
  | JNum jsnum
  | JBigInt int
  | JStr jsstring
  | JArr "jsval list"
  | JObj "(jsstring \<times> jsval) list"

text \<open>\<open>!v\<close> is \<open>\<not> truthy v\<close>.\<close>

fun truthy :: "jsval \<Rightarrow> bool" where
  "truthy JUndefined = False"
| "truthy JNull = False"
| "truthy (JBool b) = b"
| "truthy (JNum n) = (n \<noteq> Zero \<and> n \<noteq> NaN)"
| "truthy (JBigInt n) = (n \<noteq> 0)"
| "truthy (JStr s) = (s \<noteq> [])"
| "truthy (JArr xs) = True"
| "truthy (JObj fs) = True"

text \<open>Reading a property of an object: \<open>undefined\<close> when the object has no such property.\<close>

definition get_prop :: "(jsstring \<times> jsval) list \<Rightarrow> jsstring \<Rightarrow> jsval" where
  "get_prop fs k = (case map_of fs k of None \<Rightarrow> JUndefined | Some v \<Rightarrow> v)"

text \<open>
  An exception is a value. \<open>TypeError\<close> is raised by the language itself (a method called
  on a value that does not have it); \<open>Rejected\<close> is an error of an external collaborator
  (network, HTTP status, parsing). Both carry \<open>error.message\<close>.
\<close>

datatype js_error = TypeError jsstring | Rejected jsstring

fun message :: "js_error \<Rightarrow> jsstring" where
  "message (TypeError m) = m"
| "message (Rejected m) = m"

text \<open>
  What becomes of a call: it returns a value, it throws (for an \<open>async\<close> function: the
  promise rejects), or, for an \<open>async\<close> function that awaits something that never comes,
  its promise stays pending.
\<close>

datatype 'a outcome = Returns 'a | Throws js_error | Pending

subsection \<open>String methods\<close>

text \<open>
  \<open>s.substring(start, end)\<close>: both indices are clamped to the length and swapped when
  \<open>start > end\<close>.
\<close>

definition substring :: "nat \<Rightarrow> nat \<Rightarrow> jsstring \<Rightarrow> jsstring" where
  "substring start fin s =
     (let len = length s;
          a = min start len;
          b = min fin len;
          lo = min a b;
          hi = max a b
      in take (hi - lo) (drop lo s))"

definition startsWith :: "jsstring \<Rightarrow> jsstring \<Rightarrow> bool" where
  "startsWith s p = (take (length p) s = p)"

fun includesStr :: "jsstring \<Rightarrow> jsstring \<Rightarrow> bool" where
  "includesStr [] p = (p = [])"
| "includesStr (c # cs) p = (startsWith (c # cs) p \<or> includesStr cs p)"

text \<open>
  The code units \<open>trim\<close> strips: the white space and line terminators of ECMAScript
  (TAB, LF, VT, FF, CR, SP, NBSP, the space separators of Unicode, LS, PS and the BOM).
\<close>

definition is_ws :: "16 word \<Rightarrow> bool" where
  "is_ws c = (c \<in> {0x9, 0xA, 0xB, 0xC, 0xD, 0x20, 0xA0, 0x1680,
                    0x2000, 0x2001, 0x2002, 0x2003, 0x2004, 0x2005, 0x2006, 0x2007,
                    0x2008, 0x2009, 0x200A, 0x2028, 0x2029, 0x202F, 0x205F, 0x3000, 0xFEFF})"

definition trim :: "jsstring \<Rightarrow> jsstring" where
  "trim s = rev (dropWhile is_ws (rev (dropWhile is_ws s)))"

subsection \<open>\<open>JSON.stringify\<close>\<close>

definition hex_digit :: "nat \<Rightarrow> 16 word" where
  "hex_digit n = (if n < 10 then 48 + of_nat n else 87 + of_nat n)"

definition unicode_escape :: "16 word \<Rightarrow> jsstring" where
  "unicode_escape c =
     [92, 117, hex_digit (unat c div 4096), hex_digit (unat c div 256 mod 16),
      hex_digit (unat c div 16 mod 16), hex_digit (unat c mod 16)]"

definition is_lead :: "16 word \<Rightarrow> bool" where
  "is_lead c = (0xD800 \<le> c \<and> c \<le> 0xDBFF)"

definition is_trail :: "16 word \<Rightarrow> bool" where
  "is_trail c = (0xDC00 \<le> c \<and> c \<le> 0xDFFF)"

text \<open>
  The body of \<open>QuoteJSONString\<close>: the two-character escapes, \<open>\uXXXX\<close> for the other
  control characters and for a surrogate that has no partner.
\<close>

fun quote_units :: "jsstring \<Rightarrow> jsstring" where
  "quote_units [] = []"
| "quote_units (c # cs) =
     (if c = 8 then [92, 98] @ quote_units cs
      else if c = 9 then [92, 116] @ quote_units cs
      else if c = 10 then [92, 110] @ quote_units cs
      else if c = 12 then [92, 102] @ quote_units cs
      else if c = 13 then [92, 114] @ quote_units cs
      else if c = 34 then [92, 34] @ quote_units cs
      else if c = 92 then [92, 92] @ quote_units cs
      else if c < 32 then unicode_escape c @ quote_units cs
      else if is_lead c then
        (case cs of
           [] \<Rightarrow> unicode_escape c
         | d # ds \<Rightarrow>
             if is_trail d then c # d # quote_units ds
             else unicode_escape c @ quote_units cs)
      else if is_trail c then unicode_escape c @ quote_units cs
      else c # quote_units cs)"

definition quote :: "jsstring \<Rightarrow> jsstring" where
  "quote s = [34] @ quote_units s @ [34]"

fun join_comma :: "jsstring list \<Rightarrow> jsstring" where
  "join_comma [] = []"
| "join_comma [t] = t"
| "join_comma (t # u # ts) = t @ [44] @ join_comma (u # ts)"

fun number_text :: "jsnum \<Rightarrow> jsstring" where
  "number_text NaN = js ''null''"
| "number_text Infinite = js ''null''"
| "number_text Zero = js ''0''"
| "number_text (Nonzero t) = t"

text \<open>
  \<open>JSON.stringify(v)\<close> with no replacer and no indentation. The result is \<open>undefined\<close>
  (\<open>Inr None\<close>) for \<open>undefined\<close>; inside an array \<open>undefined\<close> is written \<open>null\<close>, inside an
  object a property whose value is \<open>undefined\<close> is left out. A BigInt anywhere in the
  value makes the call throw (\<open>Inl\<close>), at the first one met.
\<close>

fun JSON_stringify :: "jsval \<Rightarrow> js_error + jsstring option"
  and stringify_elements :: "jsval list \<Rightarrow> js_error + jsstring list"
  and stringify_properties :: "(jsstring \<times> jsval) list \<Rightarrow> js_error + jsstring list" where
  "JSON_stringify JUndefined = Inr None"
| "JSON_stringify JNull = Inr (Some (js ''null''))"
| "JSON_stringify (JBool b) = Inr (Some (if b then js ''true'' else js ''false''))"
| "JSON_stringify (JNum n) = Inr (Some (number_text n))"
| "JSON_stringify (JBigInt n) = Inl (TypeError (js ''Do not know how to serialize a BigInt''))"
| "JSON_stringify (JStr s) = Inr (Some (quote s))"
| "JSON_stringify (JArr xs) =
     (case stringify_elements xs of
        Inl e \<Rightarrow> Inl e
      | Inr ts \<Rightarrow> Inr (Some ([91] @ join_comma ts @ [93])))"
| "JSON_stringify (JObj fs) =
     (case stringify_properties fs of
        Inl e \<Rightarrow> Inl e
      | Inr ts \<Rightarrow> Inr (Some ([123] @ join_comma ts @ [125])))"
| "stringify_elements [] = Inr []"
| "stringify_elements (x # xs) =
     (case JSON_stringify x of
        Inl e \<Rightarrow> Inl e
      | Inr r \<Rightarrow>
          (case stringify_elements xs of
             Inl e \<Rightarrow> Inl e
           | Inr ts \<Rightarrow> Inr ((case r of None \<Rightarrow> js ''null'' | Some t \<Rightarrow> t) # ts)))"
| "stringify_properties [] = Inr []"
| "stringify_properties ((k, v) # fs) =
     (case JSON_stringify v of
        Inl e \<Rightarrow> Inl e
      | Inr r \<Rightarrow>
          (case stringify_properties fs of
             Inl e \<Rightarrow> Inl e
           | Inr ts \<Rightarrow>
               Inr (case r of None \<Rightarrow> ts | Some t \<Rightarrow> (quote k @ [58] @ t) # ts)))"

subsection \<open>\<open>String.prototype.replace\<close> with a string pattern\<close>

fun indexOf :: "jsstring \<Rightarrow> jsstring \<Rightarrow> nat option" where
  "indexOf [] p = (if p = [] then Some 0 else None)"
| "indexOf (c # cs) p =
     (if startsWith (c # cs) p then Some 0 else map_option Suc (indexOf cs p))"

text \<open>
  \<open>GetSubstitution\<close> for a pattern that is a string (no capture groups): in the
  replacement text \<open>$$\<close> stands for \<open>$\<close>, \<open>$&\<close> for the matched text, \<open>$`\<close> for the
  text before the match and \<open>$'\<close> for the text after it; any other \<open>$\<close> is literal.
\<close>

fun getSubstitution :: "jsstring \<Rightarrow> jsstring \<Rightarrow> nat \<Rightarrow> jsstring \<Rightarrow> jsstring" where
  "getSubstitution matched str pos [] = []"
| "getSubstitution matched str pos [c] = [c]"
| "getSubstitution matched str pos (c # d # r) =
     (if c = 36 then
        (if d = 36 then 36 # getSubstitution matched str pos r
         else if d = 38 then matched @ getSubstitution matched str pos r
         else if d = 96 then take pos str @ getSubstitution matched str pos r
         else if d = 39 then drop (pos + length matched) str @ getSubstitution matched str pos r
         else 36 # getSubstitution matched str pos (d # r))
      else c # getSubstitution matched str pos (d # r))"

text \<open>\<open>str.replace(pattern, replacement)\<close>: the first occurrence only.\<close>

definition replace_first :: "jsstring \<Rightarrow> jsstring \<Rightarrow> jsstring \<Rightarrow> jsstring" where
  "replace_first str pattern replacement =
     (case indexOf str pattern of
        None \<Rightarrow> str
      | Some pos \<Rightarrow>
          take pos str @ getSubstitution pattern str pos replacement
            @ drop (pos + length pattern) str)"

text \<open>\<open>ToString\<close> of the result of \<open>JSON.stringify\<close>, a string or \<open>undefined\<close>.\<close>

fun to_string :: "jsstring option \<Rightarrow> jsstring" where
  "to_string None = js ''undefined''"
| "to_string (Some t) = t"

section \<open>The world outside the program\<close>

text \<open>
  What \<open>fetch\<close> resolves to: the \<open>content-type\<close> header (\<open>None\<close> when the response
  has none: \<open>headers.get\<close> returns \<open>null\<close>), and what \<open>response.json()\<close> and
  \<open>response.text()\<close> give, \<open>Inl\<close> the message of the error when they reject.
\<close>

record http_response =
  content_type :: "jsstring option"
  json_body :: "jsstring + jsval"
  text_body :: "jsstring + jsstring"

record segment_request =
  content :: jsstring
  return_chunks :: bool
  return_tokens :: bool
  max_chunk_length :: nat

record embedding_request =
  model :: jsstring
  normalized :: bool
  embedding_type :: jsstring
  input :: "jsval list"

text \<open>
  The external collaborators, as functions of the request they receive. \<open>Inl m\<close> is a
  failure with message \<open>m\<close>. \<open>stdin\<close> gives the lines the user types, in order.
  \<^item> \<open>import_error\<close>: \<open>Some m\<close> when \<open>import('node-fetch')\<close> fails;
  \<^item> \<open>http_get\<close>: the GET on the content-extraction proxy;
  \<^item> \<open>jsdom_body_text\<close>: \<open>new JSDOM(text).window.document.body.textContent\<close>;
  \<^item> \<open>segment_service\<close>: the POST on the segmentation endpoint, then \<open>response.json()\<close>;
  \<^item> \<open>embedding_service\<close>: \<open>axios.post\<close> on the embedding endpoint, then \<open>response.data\<close>;
  \<^item> \<open>gemini_service\<close>: \<open>geminiModel.generateContent\<close>, then \<open>result.response.text()\<close>.
\<close>

record world =
  JINA_AUTH_TOKEN :: "jsstring option"
  stdin :: "nat \<Rightarrow> jsstring"
  import_error :: "jsstring option"
  http_get :: "jsstring \<Rightarrow> jsstring + http_response"
  jsdom_body_text :: "jsstring \<Rightarrow> jsstring + jsstring"
  segment_service :: "segment_request \<Rightarrow> jsstring + jsval"
  embedding_service :: "embedding_request \<Rightarrow> jsstring + jsval"
  gemini_service :: "jsstring \<Rightarrow> jsstring + jsstring"

text \<open>
  What a run does to the outside, in order: console lines, questions asked on the
  terminal, and the four kinds of network call (with the \<open>Authorization\<close> header sent).
\<close>

datatype event =
    Log jsstring
  | Prompt jsstring
  | FetchCall jsstring "jsstring option"
  | SegmentCall segment_request "jsstring option"
  | EmbedCall embedding_request "jsstring option"
  | GeminiCall jsstring

text \<open>
  The state of a run: how many lines of the terminal have been read, whether
  \<open>process.stdin\<close> is flowing (a readline interface resumes it when it is created and
  pauses it when it is closed), and the trace.
\<close>

record state =
  asked :: nat
  flowing :: bool
  trace :: "event list"

definition emit :: "event \<Rightarrow> state \<Rightarrow> state" where
  "emit e s = s\<lparr>trace := trace s @ [e]\<rparr>"

definition console_log :: "jsstring \<Rightarrow> state \<Rightarrow> state" where
  "console_log m s = emit (Log m) s"

text \<open>\<open>readline.createInterface\<close> on \<open>process.stdin\<close>, and \<open>rl.close()\<close>.\<close>

definition createInterface :: "state \<Rightarrow> state" where
  "createInterface s = s\<lparr>flowing := True\<rparr>"

definition rl_close :: "state \<Rightarrow> state" where
  "rl_close s = s\<lparr>flowing := False\<rparr>"

text \<open>
  \<open>rl.question(p, resolve)\<close> while \<open>process.stdin\<close> is flowing: the prompt is written and
  the next line of the terminal answers. While \<open>process.stdin\<close> is paused, the prompt is
  written and no answer ever comes: the caller tests \<open>flowing\<close> first.
\<close>

definition rl_question :: "world \<Rightarrow> jsstring \<Rightarrow> state \<Rightarrow> jsstring \<times> state" where
  "rl_question w p s = (stdin w (asked s), (emit (Prompt p) s)\<lparr>asked := Suc (asked s)\<rparr>)"

text \<open>
  The prompt of \<open>fetchContent\<close> and \<open>segmentText\<close>: an interface of its own is created,
  asked and closed. Its creation resumes \<open>process.stdin\<close>, so the question is answered;
  closing it leaves \<open>process.stdin\<close> paused, also for any other interface on it.
\<close>

definition question :: "world \<Rightarrow> jsstring \<Rightarrow> state \<Rightarrow> jsstring \<times> state" where
  "question w p s =
     (let (answer, s1) = rl_question w p (createInterface s) in (answer, rl_close s1))"

fun is_network_call :: "event \<Rightarrow> bool" where
  "is_network_call (Log m) = False"
| "is_network_call (Prompt p) = False"
| "is_network_call (FetchCall u a) = True"
| "is_network_call (SegmentCall r a) = True"
| "is_network_call (EmbedCall r a) = True"
| "is_network_call (GeminiCall p) = True"

definition network_calls :: "state \<Rightarrow> event list" where
  "network_calls s = filter is_network_call (trace s)"

definition console :: "state \<Rightarrow> jsstring list" where
  "console s = concat (map (\<lambda>e. case e of Log m \<Rightarrow> [m] | _ \<Rightarrow> []) (trace s))"

section \<open>The stage functions\<close>

text \<open>
  Every function takes the world and the state before the call and returns what the
  caller of the \<open>async\<close> function sees (\<open>Returns v\<close>, or \<open>Throws e\<close> for a rejected
  promise) with the state after it.
\<close>

subsection \<open>\<open>fetchContent\<close>\<close>

text \<open>The \<open>try\<close> block: \<open>Inl e\<close> is the error that reaches \<open>catch\<close>.\<close>

definition fetchContent_try :: "world \<Rightarrow> jsstring \<Rightarrow> state \<Rightarrow> (js_error + jsval) \<times> state" where
  "fetchContent_try w url s0 =
     (let s1 = console_log (js ''Fetching content from: '' @ url) s0 in
      case import_error w of
        Some m \<Rightarrow> (Inl (Rejected m), s1)
      | None \<Rightarrow>
          let target = js ''https://r.jina.ai/'' @ url;
              s2 = emit (FetchCall target (JINA_AUTH_TOKEN w)) s1
          in case http_get w target of
               Inl m \<Rightarrow> (Inl (Rejected m), s2)
             | Inr response \<Rightarrow>
                 (case content_type response of
                    None \<Rightarrow>
                      (Inl (TypeError (js ''Cannot read properties of null (reading 'includes')'')), s2)
                  | Some contentType \<Rightarrow>
                      if includesStr contentType (js ''application/json'') then
                        (case json_body response of
                           Inl m \<Rightarrow> (Inl (Rejected m), s2)
                         | Inr d \<Rightarrow> (Inr d, console_log (js ''Content fetched successfully.'') s2))
                      else if includesStr contentType (js ''text/html'') then
                        (case text_body response of
                           Inl m \<Rightarrow> (Inl (Rejected m), s2)
                         | Inr t \<Rightarrow>
                             (case jsdom_body_text w t of
                                Inl m \<Rightarrow> (Inl (Rejected m), s2)
                              | Inr b \<Rightarrow>
                                  (Inr (JStr b), console_log (js ''Content fetched successfully.'') s2)))
                      else
                        (case text_body response of
                           Inl m \<Rightarrow> (Inl (Rejected m), s2)
                         | Inr t \<Rightarrow>
                             (Inr (JStr t), console_log (js ''Content fetched successfully.'') s2))))"

text \<open>
  The parameter defaults to \<open>null\<close>. A falsy \<open>url\<close> is asked for on the terminal. The
  test \<open>url.startsWith("http")\<close> stands before the \<open>try\<close>: on a truthy value that is
  not a string there is no such method, and the \<open>TypeError\<close> leaves the function.
\<close>

definition fetchContent :: "world \<Rightarrow> jsval \<Rightarrow> state \<Rightarrow> jsval outcome \<times> state" where
  "fetchContent w arg s0 =
     (let url0 = (if arg = JUndefined then JNull else arg);
          (url, s1) =
            (if \<not> truthy url0 then
               (let (answer, s) = question w (js ''Enter the URL to fetch content: '') s0
                in (JStr answer, s))
             else (url0, s0))
      in case url of
           JStr u \<Rightarrow>
             if \<not> startsWith u (js ''http'') then
               (Returns JNull, console_log (js ''Invalid URL.'') s1)
             else
               (case fetchContent_try w u s1 of
                  (Inr d, s2) \<Rightarrow> (Returns d, s2)
                | (Inl e, s2) \<Rightarrow>
                    (Returns JNull, console_log (js ''Error fetching content: '' @ message e) s2))
         | _ \<Rightarrow> (Throws (TypeError (js ''url.startsWith is not a function'')), s1))"

subsection \<open>\<open>segmentText\<close>\<close>

definition segmentText_try :: "world \<Rightarrow> segment_request \<Rightarrow> state \<Rightarrow> (js_error + jsval) \<times> state" where
  "segmentText_try w requestData s0 =
     (let s1 = console_log (js ''Attempting to segment text...'') s0 in
      case import_error w of
        Some m \<Rightarrow> (Inl (Rejected m), s1)
      | None \<Rightarrow>
          let s2 = emit (SegmentCall requestData (JINA_AUTH_TOKEN w)) s1
          in case segment_service w requestData of
               Inl m \<Rightarrow> (Inl (Rejected m), s2)
             | Inr d \<Rightarrow> (Inr d, console_log (js ''Text segmentation successful.'') s2))"

text \<open>
  The parameter defaults to \<open>null\<close>. A falsy \<open>content\<close> is asked for on the terminal; a
  content that is not a string is serialized. The serialization and \<open>content.trim()\<close>
  stand before the \<open>try\<close>.
\<close>

definition segmentText :: "world \<Rightarrow> jsval \<Rightarrow> state \<Rightarrow> jsval outcome \<times> state" where
  "segmentText w arg s0 =
     (let content0 = (if arg = JUndefined then JNull else arg);
          (content1, s1) =
            (if \<not> truthy content0 then
               (let (answer, s) = question w (js ''Enter the text to segment: '') s0
                in (JStr answer, s))
             else (content0, s0));
          content2 = (case content1 of JStr t \<Rightarrow> Inr (Some t) | _ \<Rightarrow> JSON_stringify content1)
      in case content2 of
           Inl e \<Rightarrow> (Throws e, s1)
         | Inr None \<Rightarrow>
             (Throws (TypeError (js ''Cannot read properties of undefined (reading 'trim')'')), s1)
         | Inr (Some t) \<Rightarrow>
             if trim t = [] then (Returns JNull, console_log (js ''No text provided.'') s1)
             else
               (let requestData = \<lparr>content = t, return_chunks = True, return_tokens = True,
                                   max_chunk_length = 1500\<rparr>
                in case segmentText_try w requestData s1 of
                     (Inr d, s2) \<Rightarrow> (Returns d, s2)
                   | (Inl e, s2) \<Rightarrow>
                       (Returns JNull, console_log (js ''Error segmenting text: '' @ message e) s2)))"

subsection \<open>\<open>generateEmbeddings\<close>\<close>

text \<open>\<open>v.substring(0, 1000)\<close> on a truthy value: only a string has the method.\<close>

definition text_substring :: "jsval \<Rightarrow> jsstring outcome" where
  "text_substring v =
     (case v of
        JStr t \<Rightarrow> Returns (substring 0 1000 t)
      | _ \<Rightarrow> Throws (TypeError (js ''item.text.substring is not a function'')))"

text \<open>\<open>JSON.stringify(item).substring(0, 1000)\<close>, the serializer being \<open>stringify\<close>.\<close>

definition serialize_truncate :: "(jsval \<Rightarrow> js_error + jsstring option) \<Rightarrow> jsval \<Rightarrow> jsstring outcome" where
  "serialize_truncate stringify item =
     (case stringify item of
        Inl e \<Rightarrow> Throws e
      | Inr None \<Rightarrow>
          Throws (TypeError (js ''Cannot read properties of undefined (reading 'substring')''))
      | Inr (Some t) \<Rightarrow> Returns (substring 0 1000 t))"

text \<open>
  The function mapped over the inputs, its three branches in the order of the source:
  a string; a value whose \<open>typeof\<close> is \<open>'object'\<close> (\<open>null\<close>, an object, an array) with a
  truthy \<open>text\<close>; anything else (\<open>undefined\<close>, a boolean, a number, a BigInt).
  Reading \<open>null.text\<close> raises; an array has no \<open>text\<close>.
  The serializer is a parameter, instantiated with \<open>JSON_stringify\<close> below, so that a
  result that does not depend on it is seen not to call it.
\<close>

fun normalizeItem :: "(jsval \<Rightarrow> js_error + jsstring option) \<Rightarrow> jsval \<Rightarrow> jsstring outcome" where
  "normalizeItem stringify (JStr s) = Returns (substring 0 1000 s)"
| "normalizeItem stringify JNull =
     Throws (TypeError (js ''Cannot read properties of null (reading 'text')''))"
| "normalizeItem stringify (JObj fs) =
     (if truthy (get_prop fs (js ''text'')) then text_substring (get_prop fs (js ''text''))
      else serialize_truncate stringify (JObj fs))"
| "normalizeItem stringify item = serialize_truncate stringify item"

text \<open>\<open>Array.prototype.map\<close> with a callback that may throw: the first error ends it.\<close>

fun map_outcome :: "('a \<Rightarrow> 'b outcome) \<Rightarrow> 'a list \<Rightarrow> 'b list outcome" where
  "map_outcome f [] = Returns []"
| "map_outcome f (x # xs) =
     (case f x of
        Throws e \<Rightarrow> Throws e
      | Pending \<Rightarrow> Pending
      | Returns y \<Rightarrow>
          (case map_outcome f xs of
             Throws e \<Rightarrow> Throws e
           | Pending \<Rightarrow> Pending
           | Returns ys \<Rightarrow> Returns (y # ys)))"

text \<open>\<open>inputs.length === 0\<close> on a truthy value.\<close>

fun length_is_zero :: "jsval \<Rightarrow> bool" where
  "length_is_zero (JArr xs) = (xs = [])"
| "length_is_zero (JStr s) = (s = [])"
| "length_is_zero (JObj fs) = (get_prop fs (js ''length'') = JNum Zero)"
| "length_is_zero v = False"

definition build_request :: "jsstring list \<Rightarrow> embedding_request" where
  "build_request stringInputs =
     \<lparr>model = js ''jina-clip-v2'', normalized = True, embedding_type = js ''float'',
      input = map (\<lambda>t. JObj [(js ''text'', JStr t)]) stringInputs\<rparr>"

text \<open>
  The parameter defaults to \<open>[]\<close>. The normalization stands before the \<open>try\<close>; only an
  array has \<open>map\<close>.
\<close>

definition generateEmbeddings :: "world \<Rightarrow> jsval \<Rightarrow> state \<Rightarrow> jsval outcome \<times> state" where
  "generateEmbeddings w arg s0 =
     (let inputs = (if arg = JUndefined then JArr [] else arg) in
      if \<not> truthy inputs \<or> length_is_zero inputs then
        (Returns JNull, console_log (js ''No inputs provided for embedding generation.'') s0)
      else
        (case inputs of
           JArr xs \<Rightarrow>
             (case map_outcome (normalizeItem JSON_stringify) xs of
                Throws e \<Rightarrow> (Throws e, s0)
              | Pending \<Rightarrow> (Pending, s0)
              | Returns stringInputs \<Rightarrow>
                  let data = build_request stringInputs;
                      s1 = console_log (js ''Attempting to generate embeddings...'') s0;
                      s2 = emit (EmbedCall data (JINA_AUTH_TOKEN w)) s1
                  in case embedding_service w data of
                       Inl m \<Rightarrow>
                         (Returns JNull,
                          console_log (js ''Error generating embeddings: '' @ m) s2)
                     | Inr d \<Rightarrow> (Returns d, s2))
         | _ \<Rightarrow> (Throws (TypeError (js ''inputs.map is not a function'')), s0)))"

subsection \<open>\<open>generateGeminiResponse\<close>\<close>

definition SYSTEM_PROMPT :: jsstring where
  "SYSTEM_PROMPT =
     js ''You are a knowledgeable assistant designed to answer user questions accurately and concisely by utilizing retrieved documents.''
     @ [10] @ js ''*DOCUMENT:* {document}''
     @ [10] @ js ''---*QUESTION:* {question}''
     @ [10] @ js ''---*INSTRUCTIONS:*''
     @ [10] @ js ''- Answer the user's question using the information from the document above''
     @ [10] @ js ''- Ensure your response is factual, specific, and relevant to the question''
     @ [10] @ js ''- Keep your answer clear and concise, ideally within 2-3 sentences''"

text \<open>\<open>Inl\<close>: \<open>JSON.stringify(document)\<close> threw, and no prompt is formed.\<close>

definition formattedPrompt :: "jsval \<Rightarrow> jsstring \<Rightarrow> js_error + jsstring" where
  "formattedPrompt document qu =
     (case JSON_stringify document of
        Inl e \<Rightarrow> Inl e
      | Inr r \<Rightarrow>
          Inr (replace_first
                 (replace_first SYSTEM_PROMPT (js ''{document}'') (to_string r))
                 (js ''{question}'') qu))"

text \<open>
  The whole body is inside the \<open>try\<close>: an error of the serialization or of the service
  is printed and \<open>null\<close> returned. The question is a string (the line read from the
  terminal).
\<close>

definition generateGeminiResponse :: "world \<Rightarrow> jsval \<Rightarrow> jsstring \<Rightarrow> state \<Rightarrow> jsval outcome \<times> state" where
  "generateGeminiResponse w document qu s0 =
     (case formattedPrompt document qu of
        Inl e \<Rightarrow>
          (Returns JNull,
           console_log (js ''Error generating Gemini response: '' @ message e) s0)
      | Inr p \<Rightarrow>
          let s1 = emit (GeminiCall p) s0
          in case gemini_service w p of
               Inl m \<Rightarrow>
                 (Returns JNull, console_log (js ''Error generating Gemini response: '' @ m) s1)
             | Inr t \<Rightarrow> (Returns (JStr t), s1))"

section \<open>The orchestrator\<close>

text \<open>
  \<open>main\<close> returns \<open>undefined\<close> on every path; the value of the model names the exit
  taken: \<open>Done\<close> after the answer is printed, \<open>Failed\<close> at each of the three exits that
  print a failure.
\<close>

datatype terminal = Done | Failed

text \<open>
  What \<open>console.log(v)\<close> prints for the value \<open>generateGeminiResponse\<close> returned: a
  string is printed as it is. (Only a string reaches that line; the other cases are
  there to make the function total.)
\<close>

fun display :: "jsval \<Rightarrow> jsstring" where
  "display (JStr t) = t"
| "display v = (case JSON_stringify v of Inl e \<Rightarrow> message e | Inr r \<Rightarrow> to_string r)"

text \<open>
  \<open>main\<close> creates its readline interface first and asks its two questions on it. A
  question asked while \<open>process.stdin\<close> is paused is never answered: the promise of
  \<open>main\<close> stays pending (and the process ends, nothing being left to wait for). That
  happens at the second question when \<open>fetchContent\<close> has asked for the URL itself.
\<close>

definition main :: "world \<Rightarrow> state \<Rightarrow> terminal outcome \<times> state" where
  "main w s0 =
     (let s1 = console_log ([10] @ js ''--- Step 1: Fetching Content ---'') (createInterface s0)
      in if \<not> flowing s1 then
           (Pending, emit (Prompt (js ''Enter the URL to fetch content: '')) s1)
         else
      (let (url, s2) = rl_question w (js ''Enter the URL to fetch content: '') s1
      in case fetchContent w (JStr url) s2 of
           (Throws e, s3) \<Rightarrow> (Throws e, s3)
         | (Pending, s3) \<Rightarrow> (Pending, s3)
         | (Returns fetchedContent, s3) \<Rightarrow>
             if \<not> truthy fetchedContent then
               (Returns Failed,
                rl_close (console_log (js ''Content fetching failed. Exiting.'') s3))
             else
               (let s4 = console_log ([10] @ js ''--- Step 2: Segmenting Text ---'') s3
                in case segmentText w fetchedContent s4 of
                     (Throws e, s5) \<Rightarrow> (Throws e, s5)
                   | (Pending, s5) \<Rightarrow> (Pending, s5)
                   | (Returns segmentedContent, s5) \<Rightarrow>
                       if \<not> truthy segmentedContent then
                         (Returns Failed,
                          rl_close (console_log (js ''Text segmentation failed. Exiting.'') s5))
                       else
                         (let s6 = console_log ([10] @ js ''--- Step 3: Generating Embeddings ---'') s5
                          in case generateEmbeddings w (JArr [segmentedContent]) s6 of
                               (Throws e, s7) \<Rightarrow> (Throws e, s7)
                             | (Pending, s7) \<Rightarrow> (Pending, s7)
                             | (Returns embeddings, s7) \<Rightarrow>
                                 (let s8 = console_log
                                             ([10] @ js ''--- Step 4: Generating AI Response ---'') s7
                                  in if \<not> flowing s8 then
                                       (Pending,
                                        emit (Prompt (js ''Ask a question about the fetched content: '')) s8)
                                     else
                                  (let (userQuestion, s9) =
                                        rl_question w (js ''Ask a question about the fetched content: '') s8
                                  in case generateGeminiResponse w segmentedContent userQuestion s9 of
                                       (Throws e, s10) \<Rightarrow> (Throws e, s10)
                                     | (Pending, s10) \<Rightarrow> (Pending, s10)
                                     | (Returns geminiResponse, s10) \<Rightarrow>
                                         if truthy geminiResponse then
                                           (Returns Done,
                                            rl_close
                                              (console_log ([10] @ js ''Workflow completed successfully!'')
                                                (console_log (display geminiResponse)
                                                  (console_log ([10] @ js ''--- Gemini's Response ---'') s10))))
                                         else
                                           (Returns Failed,
                                            rl_close
                                              (console_log
                                                ([10] @ js ''Workflow encountered an error during AI response generation.'')
                                                s10))))))))"

text \<open>The calls of the third and the fourth stage.\<close>

fun is_later_stage_call :: "event \<Rightarrow> bool" where
  "is_later_stage_call (EmbedCall r a) = True"
| "is_later_stage_call (GeminiCall p) = True"
| "is_later_stage_call e = False"

definition later_stage_calls :: "state \<Rightarrow> event list" where
  "later_stage_calls s = filter is_later_stage_call (trace s)"

text \<open>
  The prompt template with the text \<open>d\<close> at the place of \<open>{document}\<close>, the
  placeholder of the question still to be filled.
\<close>

definition with_document :: "jsstring \<Rightarrow> jsstring" where
  "with_document d =
     js ''You are a knowledgeable assistant designed to answer user questions accurately and concisely by utilizing retrieved documents.''
     @ [10] @ js ''*DOCUMENT:* '' @ d
     @ [10] @ js ''---*QUESTION:* {question}''
     @ [10] @ js ''---*INSTRUCTIONS:*''
     @ [10] @ js ''- Answer the user's question using the information from the document above''
     @ [10] @ js ''- Ensure your response is factual, specific, and relevant to the question''
     @ [10] @ js ''- Keep your answer clear and concise, ideally within 2-3 sentences''"

section \<open>Concrete runs\<close>

text \<open>
  A world in which the page is served as HTML, segmentation succeeds, the embedding
  service answers with an error and the generative model answers. The user types the
  URL, then the question.
\<close>

definition demo_world :: world where
  "demo_world =
     \<lparr>JINA_AUTH_TOKEN = Some (js ''token''),
      stdin = (\<lambda>n. if n = 0 then js ''https://example.com/article'' else js ''What is it?''),
      import_error = None,
      http_get = (\<lambda>u. Inr \<lparr>content_type = Some (js ''text/html; charset=utf-8''),
                               json_body = Inl (js ''Unexpected token''),
                               text_body = Inr (js ''<body>Hello world</body>'')\<rparr>),
      jsdom_body_text = (\<lambda>t. Inr (js ''Hello world'')),
      segment_service = (\<lambda>r. Inr (JObj [(js ''chunks'', JArr [JStr (content r)])])),
      embedding_service = (\<lambda>r. Inl (js ''Request failed with status code 500'')),
      gemini_service = (\<lambda>p. Inr (js ''An answer.''))\<rparr>"

definition start :: state where
  "start = \<lparr>asked = 0, flowing = False, trace = []\<rparr>"

section \<open>Basic facts\<close>

lemma substring_0: "substring 0 n s = take n s"
  by (simp add: substring_def Let_def min_def max_def)

lemma network_calls_console_log: "network_calls (console_log m s) = network_calls s"
  by (simp add: network_calls_def console_log_def emit_def)

lemma network_calls_question: "network_calls (snd (question w p s)) = network_calls s"
  by (simp add: network_calls_def question_def rl_question_def createInterface_def rl_close_def emit_def)

lemma network_calls_rl_close: "network_calls (rl_close s) = network_calls s"
  by (simp add: network_calls_def rl_close_def)

section \<open>Embedding inputs\<close>

text \<open>
  Claim C7. A string input longer than 1000 code units is normalized to exactly its
  first 1000 code units, whatever the serializer; the result has length 1000, and
  truncating it again (by normalizing it, or by \<open>substring(0, 1000)\<close>) changes nothing.
\<close>

theorem normalize_long_string:
  "1000 < length s \<Longrightarrow>
     normalizeItem stringify (JStr s) = Returns (take 1000 s)
     \<and> length (take 1000 s) = 1000
     \<and> normalizeItem stringify (JStr (take 1000 s)) = Returns (take 1000 s)
     \<and> substring 0 1000 (substring 0 1000 s) = substring 0 1000 s"
  by (simp add: substring_0)

theorem normalize_long_string_witness:
  "1000 < length (replicate 1001 (97 :: 16 word))
   \<and> normalizeItem JSON_stringify (JStr (replicate 1001 97)) = Returns (replicate 1000 97)"
  using normalize_long_string [of "replicate 1001 97" JSON_stringify] by simp

text \<open>
  Claim C6. Called with no argument (\<open>undefined\<close>, so that the default \<open>[]\<close> applies),
  with \<open>null\<close> or with the empty array, \<open>generateEmbeddings\<close> returns \<open>null\<close>; all it
  does is print one line, so no network call is added to the trace.
\<close>

theorem generateEmbeddings_empty_or_missing:
  "generateEmbeddings w JUndefined s
     = (Returns JNull, console_log (js ''No inputs provided for embedding generation.'') s)
   \<and> generateEmbeddings w JNull s
     = (Returns JNull, console_log (js ''No inputs provided for embedding generation.'') s)
   \<and> generateEmbeddings w (JArr []) s
     = (Returns JNull, console_log (js ''No inputs provided for embedding generation.'') s)
   \<and> network_calls (console_log (js ''No inputs provided for embedding generation.'') s)
     = network_calls s"
  by (simp add: generateEmbeddings_def network_calls_console_log)

theorem generateEmbeddings_empty_or_missing_witness:
  "fst (generateEmbeddings demo_world (JArr []) start) = Returns JNull
   \<and> network_calls (snd (generateEmbeddings demo_world (JArr []) start)) = []"
  using generateEmbeddings_empty_or_missing [of demo_world start]
  by (simp add: start_def network_calls_def console_log_def emit_def)

text \<open>
  Claim C8 fails as stated: an object whose \<open>text\<close> field is the empty string has a
  \<open>text\<close> field, yet the test \<open>item.text\<close> is falsy for it, and the object is
  serialized as a whole.
\<close>

theorem empty_text_field_counterexample:
  "get_prop [(js ''text'', JStr [])] (js ''text'') = JStr []
   \<and> normalizeItem JSON_stringify (JObj [(js ''text'', JStr [])])
     = Returns ([123, 34] @ js ''text'' @ [34, 58, 34, 34, 125])
   \<and> normalizeItem JSON_stringify (JObj [(js ''text'', JStr [])]) \<noteq> Returns (take 1000 [])"
  by (simp add: get_prop_def serialize_truncate_def substring_0 quote_def js_def
      is_lead_def is_trail_def)

text \<open>
  Claim C8, amended. For every object whose \<open>text\<close> field is a non-empty string, the
  normalized form is the first 1000 code units of that field. This holds for every
  serializer \<open>stringify\<close>: the result does not come from serializing the object.
\<close>

theorem text_field_wins:
  "get_prop fs (js ''text'') = JStr t \<Longrightarrow> t \<noteq> [] \<Longrightarrow>
     normalizeItem stringify (JObj fs) = Returns (take 1000 t)"
  by (simp add: text_substring_def substring_0)

theorem text_field_wins_witness:
  "get_prop [(js ''id'', JNum (Nonzero (js ''7''))), (js ''text'', JStr (js ''chunk''))] (js ''text'')
     = JStr (js ''chunk'')
   \<and> js ''chunk'' \<noteq> []
   \<and> normalizeItem JSON_stringify
        (JObj [(js ''id'', JNum (Nonzero (js ''7''))), (js ''text'', JStr (js ''chunk''))])
     = Returns (js ''chunk'')"
  using text_field_wins [of "[(js ''id'', JNum (Nonzero (js ''7''))), (js ''text'', JStr (js ''chunk''))]"
      "js ''chunk''" JSON_stringify]
  by (simp add: get_prop_def js_def)

subsection \<open>The request\<close>

lemma map_outcome_Returns:
  "length ts = length xs \<Longrightarrow> \<forall>i<length xs. f (xs ! i) = Returns (ts ! i) \<Longrightarrow>
     map_outcome f xs = Returns ts"
proof (induction xs arbitrary: ts)
  case Nil
  then show ?case by simp
next
  case (Cons x xs)
  then obtain t ts' where ts: "ts = t # ts'" by (cases ts) auto
  from Cons.prems ts have hd: "f x = Returns t" by auto
  from Cons.prems ts have "\<forall>i<length xs. f (xs ! i) = Returns (ts' ! i)" by auto
  with Cons.IH [of ts'] Cons.prems ts have "map_outcome f xs = Returns ts'" by simp
  with hd ts show ?case by simp
qed

text \<open>
  Let \<open>xs\<close> be a non-empty input array of length N whose elements all normalize, and
  \<open>ts\<close> their normalizations, position by position. Then \<open>generateEmbeddings\<close> issues
  exactly one network call, the embedding request with model \<open>jina-clip-v2\<close>,
  \<open>normalized\<close> true, \<open>embedding_type\<close> \<open>float\<close> and N entries, the entry at position
  \<open>i\<close> being \<open>{text: ts[i]}\<close>.
\<close>

lemma embedding_request_shape:
  assumes "xs \<noteq> []"
    and "length ts = length xs"
    and "\<forall>i<length xs. normalizeItem JSON_stringify (xs ! i) = Returns (ts ! i)"
  shows "network_calls (snd (generateEmbeddings w (JArr xs) s))
           = network_calls s
             @ [EmbedCall
                  \<lparr>model = js ''jina-clip-v2'', normalized = True, embedding_type = js ''float'',
                   input = map (\<lambda>t. JObj [(js ''text'', JStr t)]) ts\<rparr>
                  (JINA_AUTH_TOKEN w)]
         \<and> length (map (\<lambda>t. JObj [(js ''text'', JStr t)]) ts) = length xs
         \<and> (\<forall>i<length xs.
               map (\<lambda>t. JObj [(js ''text'', JStr t)]) ts ! i = JObj [(js ''text'', JStr (ts ! i))])"
proof -
  from assms(2,3) have m: "map_outcome (normalizeItem JSON_stringify) xs = Returns ts"
    by (rule map_outcome_Returns)
  have calls: "network_calls (snd (generateEmbeddings w (JArr xs) s))
      = network_calls s @ [EmbedCall (build_request ts) (JINA_AUTH_TOKEN w)]"
    using assms(1) m
    by (simp add: generateEmbeddings_def Let_def network_calls_def console_log_def emit_def
        split: sum.splits)
  from calls assms(2) show ?thesis by (simp add: build_request_def)
qed

lemma embedding_request_shape_example:
  "network_calls
     (snd (generateEmbeddings demo_world
             (JArr [JStr (js ''ab''), JObj [(js ''text'', JStr (js ''cd''))], JBool True]) start))
     = [EmbedCall
          \<lparr>model = js ''jina-clip-v2'', normalized = True, embedding_type = js ''float'',
           input = [JObj [(js ''text'', JStr (js ''ab''))], JObj [(js ''text'', JStr (js ''cd''))],
                    JObj [(js ''text'', JStr (js ''true''))]]\<rparr>
          (Some (js ''token''))]"
proof -
  have h: "\<forall>i<length [JStr (js ''ab''), JObj [(js ''text'', JStr (js ''cd''))], JBool True].
      normalizeItem JSON_stringify
        ([JStr (js ''ab''), JObj [(js ''text'', JStr (js ''cd''))], JBool True] ! i)
        = Returns ([js ''ab'', js ''cd'', js ''true''] ! i)"
    by (simp add: less_Suc_eq nth_Cons' get_prop_def text_substring_def serialize_truncate_def
        substring_0 js_def numeral_3_eq_3)
  show ?thesis
    using embedding_request_shape
      [of "[JStr (js ''ab''), JObj [(js ''text'', JStr (js ''cd''))], JBool True]"
          "[js ''ab'', js ''cd'', js ''true'']" demo_world start, OF _ _ h]
    by (simp add: demo_world_def start_def network_calls_def)
qed

text \<open>When the normalization of an element raises, no request is built.\<close>

lemma no_request_when_normalization_throws:
  "map_outcome (normalizeItem JSON_stringify) xs = Throws e \<Longrightarrow>
     generateEmbeddings w (JArr xs) s = (Throws e, s)"
  by (cases xs) (simp_all add: generateEmbeddings_def)

text \<open>
  Claim C9 does not hold of the code. For the non-empty input array \<open>[{text: 5}]\<close> the
  normalization of the element raises at \<open>item.text.substring\<close>, and for \<open>["ok", null]\<close>
  at \<open>null.text\<close>; the error leaves \<open>generateEmbeddings\<close> before the request object is
  built, and no network call is made: there is no request with one entry per input.
\<close>

theorem no_embedding_request_built:
  "normalizeItem JSON_stringify (JObj [(js ''text'', JNum (Nonzero (js ''5'')))])
     = Throws (TypeError (js ''item.text.substring is not a function''))
   \<and> network_calls
        (snd (generateEmbeddings w (JArr [JObj [(js ''text'', JNum (Nonzero (js ''5'')))]]) s))
     = network_calls s
   \<and> network_calls (snd (generateEmbeddings w (JArr [JStr (js ''ok''), JNull]) s))
     = network_calls s"
  by (simp add: generateEmbeddings_def get_prop_def text_substring_def)

theorem no_embedding_request_built_witness:
  "network_calls
     (snd (generateEmbeddings demo_world
             (JArr [JObj [(js ''text'', JNum (Nonzero (js ''5'')))]]) start)) = []
   \<and> network_calls (snd (generateEmbeddings demo_world (JArr [JStr (js ''ok''), JNull]) start)) = []"
  using no_embedding_request_built [of demo_world start]
  by (simp add: start_def network_calls_def)

section \<open>The answer generator\<close>

lemma replace_document_plain:
  "d \<in> {js ''undefined'', js ''null'', js ''false'', js ''0'', [34, 34]} \<Longrightarrow>
     replace_first SYSTEM_PROMPT (js ''{document}'') d = with_document d"
  by (auto simp add: replace_first_def SYSTEM_PROMPT_def with_document_def js_def startsWith_def)

lemma falsy_values:
  "\<not> truthy v \<Longrightarrow>
     v = JBigInt 0 \<or> v \<in> {JUndefined, JNull, JBool False, JNum Zero, JNum NaN, JStr []}"
  by (cases v) auto

lemma generateGeminiResponse_serialized:
  assumes "JSON_stringify document = Inr r"
    and "to_string r \<in> {js ''undefined'', js ''null'', js ''false'', js ''0'', [34, 34]}"
  shows "network_calls (snd (generateGeminiResponse w document qu s))
           = network_calls s
             @ [GeminiCall (replace_first (with_document (to_string r)) (js ''{question}'') qu)]"
    and "fst (generateGeminiResponse w document qu s) = Returns JNull
          \<longleftrightarrow> (\<exists>m. gemini_service w
                      (replace_first (with_document (to_string r)) (js ''{question}'') qu) = Inl m)"
    and "\<forall>t. gemini_service w
               (replace_first (with_document (to_string r)) (js ''{question}'') qu) = Inr t
             \<longrightarrow> fst (generateGeminiResponse w document qu s) = Returns (JStr t)"
proof -
  have p: "formattedPrompt document qu
      = Inr (replace_first (with_document (to_string r)) (js ''{question}'') qu)"
    using assms(1) replace_document_plain [OF assms(2)] by (simp add: formattedPrompt_def)
  show "network_calls (snd (generateGeminiResponse w document qu s))
           = network_calls s
             @ [GeminiCall (replace_first (with_document (to_string r)) (js ''{question}'') qu)]"
    by (simp add: generateGeminiResponse_def p Let_def network_calls_def console_log_def emit_def
        split: sum.splits)
  show "fst (generateGeminiResponse w document qu s) = Returns JNull
          \<longleftrightarrow> (\<exists>m. gemini_service w
                      (replace_first (with_document (to_string r)) (js ''{question}'') qu) = Inl m)"
    by (simp add: generateGeminiResponse_def p Let_def split: sum.splits)
  show "\<forall>t. gemini_service w
               (replace_first (with_document (to_string r)) (js ''{question}'') qu) = Inr t
             \<longrightarrow> fst (generateGeminiResponse w document qu s) = Returns (JStr t)"
    by (simp add: generateGeminiResponse_def p Let_def)
qed

text \<open>
  Claim C10 fails as stated. The BigInt \<open>0n\<close> is falsy and cannot be serialized:
  \<open>JSON.stringify\<close> throws inside the \<open>try\<close>, \<open>null\<close> is returned and nothing is
  submitted. And for \<open>null\<close> the text put at \<open>{document}\<close> is \<open>null\<close>, not
  \<open>undefined\<close>.
\<close>

theorem gemini_falsy_document_counterexample:
  "\<not> truthy (JBigInt 0)
   \<and> fst (generateGeminiResponse demo_world (JBigInt 0) (js ''What is it?'') start) = Returns JNull
   \<and> network_calls (snd (generateGeminiResponse demo_world (JBigInt 0) (js ''What is it?'') start)) = []
   \<and> \<not> truthy JNull
   \<and> network_calls (snd (generateGeminiResponse demo_world JNull (js ''What is it?'') start))
       = [GeminiCall
            (js ''You are a knowledgeable assistant designed to answer user questions accurately and concisely by utilizing retrieved documents.''
             @ [10] @ js ''*DOCUMENT:* null''
             @ [10] @ js ''---*QUESTION:* What is it?''
             @ [10] @ js ''---*INSTRUCTIONS:*''
             @ [10] @ js ''- Answer the user's question using the information from the document above''
             @ [10] @ js ''- Ensure your response is factual, specific, and relevant to the question''
             @ [10] @ js ''- Keep your answer clear and concise, ideally within 2-3 sentences'')]"
  by (simp add: generateGeminiResponse_def formattedPrompt_def Let_def start_def network_calls_def
      demo_world_def console_log_def emit_def replace_first_def SYSTEM_PROMPT_def js_def
      startsWith_def)

text \<open>
  Claim C10, amended. For every falsy document other than the BigInt \<open>0n\<close> (that is:
  \<open>undefined\<close>, \<open>null\<close>, \<open>false\<close>, a zero, \<open>NaN\<close>, the empty string)
  \<open>generateGeminiResponse\<close> validates nothing: it submits one request to the generative
  service, returns \<open>null\<close> only when that service fails, and returns the text of the
  answer otherwise. The prompt submitted is the template with the serialized document
  (the text \<open>undefined\<close>, \<open>null\<close>, \<open>false\<close>, \<open>0\<close>, \<open>null\<close>, and two double quotes,
  respectively) at \<open>{document}\<close>, and then the question substituted at the first
  \<open>{question}\<close>. For \<open>0n\<close> the serialization throws inside the \<open>try\<close>: the error is
  printed, \<open>null\<close> is returned and nothing is submitted.
\<close>

theorem gemini_submits_falsy_document:
  "(\<not> truthy document \<and> document \<noteq> JBigInt 0 \<longrightarrow>
      (\<exists>d. (document, d)
              \<in> {(JUndefined, js ''undefined''), (JNull, js ''null''), (JBool False, js ''false''),
                (JNum Zero, js ''0''), (JNum NaN, js ''null''), (JStr [], [34, 34])}
         \<and> network_calls (snd (generateGeminiResponse w document qu s))
             = network_calls s
               @ [GeminiCall (replace_first (with_document d) (js ''{question}'') qu)]
         \<and> (fst (generateGeminiResponse w document qu s) = Returns JNull
              \<longleftrightarrow> (\<exists>m. gemini_service w
                          (replace_first (with_document d) (js ''{question}'') qu) = Inl m))
         \<and> (\<forall>t. gemini_service w (replace_first (with_document d) (js ''{question}'') qu) = Inr t
                \<longrightarrow> fst (generateGeminiResponse w document qu s) = Returns (JStr t))))
   \<and> generateGeminiResponse w (JBigInt 0) qu s
       = (Returns JNull,
          console_log
            (js ''Error generating Gemini response: Do not know how to serialize a BigInt'') s)"
proof (intro conjI impI)
  assume a: "\<not> truthy document \<and> document \<noteq> JBigInt 0"
  let ?r = "case JSON_stringify document of Inr r \<Rightarrow> r"
  from a falsy_values [of document]
  have v: "document \<in> {JUndefined, JNull, JBool False, JNum Zero, JNum NaN, JStr []}"
    by blast
  then have ser: "JSON_stringify document = Inr ?r"
    and sertext: "to_string ?r \<in> {js ''undefined'', js ''null'', js ''false'', js ''0'', [34, 34]}"
    and tab: "(document, to_string ?r)
              \<in> {(JUndefined, js ''undefined''), (JNull, js ''null''), (JBool False, js ''false''),
                (JNum Zero, js ''0''), (JNum NaN, js ''null''), (JStr [], [34, 34])}"
    by (auto simp add: quote_def)
  from tab generateGeminiResponse_serialized [OF ser sertext, of w qu s]
  show "\<exists>d. (document, d)
              \<in> {(JUndefined, js ''undefined''), (JNull, js ''null''), (JBool False, js ''false''),
                (JNum Zero, js ''0''), (JNum NaN, js ''null''), (JStr [], [34, 34])}
         \<and> network_calls (snd (generateGeminiResponse w document qu s))
             = network_calls s
               @ [GeminiCall (replace_first (with_document d) (js ''{question}'') qu)]
         \<and> (fst (generateGeminiResponse w document qu s) = Returns JNull
              \<longleftrightarrow> (\<exists>m. gemini_service w
                          (replace_first (with_document d) (js ''{question}'') qu) = Inl m))
         \<and> (\<forall>t. gemini_service w (replace_first (with_document d) (js ''{question}'') qu) = Inr t
                \<longrightarrow> fst (generateGeminiResponse w document qu s) = Returns (JStr t))"
    by blast
next
  show "generateGeminiResponse w (JBigInt 0) qu s
       = (Returns JNull,
          console_log
            (js ''Error generating Gemini response: Do not know how to serialize a BigInt'') s)"
    by (simp add: generateGeminiResponse_def formattedPrompt_def js_def)
qed

theorem gemini_submits_falsy_document_witness:
  "\<not> truthy JUndefined
   \<and> network_calls (snd (generateGeminiResponse demo_world JUndefined (js ''What is it?'') start))
       = [GeminiCall
            (js ''You are a knowledgeable assistant designed to answer user questions accurately and concisely by utilizing retrieved documents.''
             @ [10] @ js ''*DOCUMENT:* undefined''
             @ [10] @ js ''---*QUESTION:* What is it?''
             @ [10] @ js ''---*INSTRUCTIONS:*''
             @ [10] @ js ''- Answer the user's question using the information from the document above''
             @ [10] @ js ''- Ensure your response is factual, specific, and relevant to the question''
             @ [10] @ js ''- Keep your answer clear and concise, ideally within 2-3 sentences'')]
   \<and> fst (generateGeminiResponse demo_world JUndefined (js ''What is it?'') start)
       = Returns (JStr (js ''An answer.''))"
proof -
  have p: "replace_first (with_document (js ''undefined'')) (js ''{question}'') (js ''What is it?'')
      = js ''You are a knowledgeable assistant designed to answer user questions accurately and concisely by utilizing retrieved documents.''
             @ [10] @ js ''*DOCUMENT:* undefined''
             @ [10] @ js ''---*QUESTION:* What is it?''
             @ [10] @ js ''---*INSTRUCTIONS:*''
             @ [10] @ js ''- Answer the user's question using the information from the document above''
             @ [10] @ js ''- Ensure your response is factual, specific, and relevant to the question''
             @ [10] @ js ''- Keep your answer clear and concise, ideally within 2-3 sentences''"
    by (simp add: replace_first_def with_document_def js_def startsWith_def)
  have g: "gemini_service demo_world
             (replace_first (with_document (js ''undefined'')) (js ''{question}'') (js ''What is it?''))
           = Inr (js ''An answer.'')"
    by (simp add: demo_world_def)
  from gemini_submits_falsy_document [of JUndefined demo_world "js ''What is it?''" start]
  have "network_calls (snd (generateGeminiResponse demo_world JUndefined (js ''What is it?'') start))
          = network_calls start
            @ [GeminiCall (replace_first (with_document (js ''undefined'')) (js ''{question}'')
                             (js ''What is it?''))]
      \<and> (\<forall>t. gemini_service demo_world
                 (replace_first (with_document (js ''undefined'')) (js ''{question}'')
                    (js ''What is it?'')) = Inr t
             \<longrightarrow> fst (generateGeminiResponse demo_world JUndefined (js ''What is it?'') start)
                   = Returns (JStr t))"
    by simp
  with g show ?thesis
    unfolding p by (simp add: start_def network_calls_def)
qed

section \<open>Input validation of the first two stages\<close>

text \<open>A text is whitespace-only exactly when \<open>trim\<close> leaves nothing of it.\<close>

lemma trim_empty_iff: "trim s = [] \<longleftrightarrow> list_all is_ws s"
proof
  assume "trim s = []"
  then have "\<forall>x\<in>set (dropWhile is_ws s). is_ws x"
    by (simp add: trim_def dropWhile_eq_Nil_conv)
  then have "dropWhile is_ws s = []"
    using hd_dropWhile [of is_ws s] by (cases "dropWhile is_ws s") auto
  then show "list_all is_ws s"
    by (simp add: dropWhile_eq_Nil_conv list_all_iff)
next
  assume "list_all is_ws s"
  then show "trim s = []"
    by (auto simp add: trim_def list_all_iff dest: set_dropWhileD)
qed

text \<open>
  Claim C4 fails as stated for the empty text: \<open>segmentText("")\<close> asks for the text
  on the terminal, and with a line that is not blank it calls the segmentation service
  and returns its answer.
\<close>

theorem segmentText_empty_counterexample:
  "list_all is_ws []
   \<and> fst (segmentText demo_world (JStr []) start)
       = Returns (JObj [(js ''chunks'', JArr [JStr (js ''https://example.com/article'')])])
   \<and> network_calls (snd (segmentText demo_world (JStr []) start))
       = [SegmentCall \<lparr>content = js ''https://example.com/article'', return_chunks = True,
                       return_tokens = True, max_chunk_length = 1500\<rparr> (Some (js ''token''))]"
  by (simp add: segmentText_def segmentText_try_def Let_def question_def rl_question_def createInterface_def rl_close_def demo_world_def start_def
      network_calls_def console_log_def emit_def trim_def is_ws_def js_def)

text \<open>
  Claim C4, amended. For every whitespace-only text argument that is not empty,
  \<open>segmentText\<close> returns \<open>null\<close> after printing one line, with no network call. For
  the empty text it first asks for the text on the terminal; when the line entered is
  empty or whitespace-only, it returns \<open>null\<close> with no network call.
\<close>

theorem segmentText_blank:
  "(t \<noteq> [] \<and> list_all is_ws t \<longrightarrow>
      segmentText w (JStr t) s = (Returns JNull, console_log (js ''No text provided.'') s)
      \<and> network_calls (snd (segmentText w (JStr t) s)) = network_calls s)
   \<and> (list_all is_ws (stdin w (asked s)) \<longrightarrow>
      segmentText w (JStr []) s
        = (Returns JNull,
           console_log (js ''No text provided.'')
             (snd (question w (js ''Enter the text to segment: '') s)))
      \<and> network_calls (snd (segmentText w (JStr []) s)) = network_calls s)"
  by (simp add: segmentText_def Let_def trim_empty_iff question_def rl_question_def createInterface_def rl_close_def
      network_calls_def console_log_def emit_def)

theorem segmentText_blank_witness:
  "segmentText demo_world (JStr [32, 9, 10]) start
     = (Returns JNull, console_log (js ''No text provided.'') start)
   \<and> fst (segmentText (demo_world\<lparr>stdin := \<lambda>n. [32]\<rparr>) (JStr []) start) = Returns JNull
   \<and> network_calls (snd (segmentText (demo_world\<lparr>stdin := \<lambda>n. [32]\<rparr>) (JStr []) start)) = []"
  using segmentText_blank [of "[32, 9, 10]" demo_world start]
    segmentText_blank [of "[]" "demo_world\<lparr>stdin := \<lambda>n. [32]\<rparr>" start]
  by (simp add: is_ws_def start_def network_calls_def console_log_def emit_def question_def rl_question_def createInterface_def rl_close_def)

text \<open>
  Claim C5 fails as stated for the empty url: \<open>fetchContent("")\<close> asks for the URL on
  the terminal, and with a line that begins with \<open>http\<close> it calls the content-extraction
  proxy and returns the page.
\<close>

theorem fetchContent_empty_counterexample:
  "\<not> startsWith [] (js ''http'')
   \<and> fst (fetchContent demo_world (JStr []) start) = Returns (JStr (js ''Hello world''))
   \<and> network_calls (snd (fetchContent demo_world (JStr []) start))
       = [FetchCall (js ''https://r.jina.ai/https://example.com/article'') (Some (js ''token''))]"
  by (simp add: fetchContent_def fetchContent_try_def Let_def question_def rl_question_def createInterface_def rl_close_def demo_world_def start_def
      network_calls_def console_log_def emit_def startsWith_def js_def)

text \<open>
  Claim C5, amended. For every url string that is not empty and does not begin with
  \<open>http\<close>, \<open>fetchContent\<close> returns \<open>null\<close> after printing one line, with no network
  call. For the empty url it first asks for the URL on the terminal; when the line
  entered does not begin with \<open>http\<close>, it returns \<open>null\<close> with no network call.
\<close>

theorem fetchContent_not_http:
  "(url \<noteq> [] \<and> \<not> startsWith url (js ''http'') \<longrightarrow>
      fetchContent w (JStr url) s = (Returns JNull, console_log (js ''Invalid URL.'') s)
      \<and> network_calls (snd (fetchContent w (JStr url) s)) = network_calls s)
   \<and> (\<not> startsWith (stdin w (asked s)) (js ''http'') \<longrightarrow>
      fetchContent w (JStr []) s
        = (Returns JNull,
           console_log (js ''Invalid URL.'')
             (snd (question w (js ''Enter the URL to fetch content: '') s)))
      \<and> network_calls (snd (fetchContent w (JStr []) s)) = network_calls s)"
  by (simp add: fetchContent_def Let_def question_def rl_question_def createInterface_def rl_close_def
      network_calls_def console_log_def emit_def)

theorem fetchContent_not_http_witness:
  "fetchContent demo_world (JStr (js ''ftp://example.com'')) start
     = (Returns JNull, console_log (js ''Invalid URL.'') start)
   \<and> fst (fetchContent (demo_world\<lparr>stdin := \<lambda>n. js ''example.com''\<rparr>) (JStr []) start) = Returns JNull
   \<and> network_calls (snd (fetchContent (demo_world\<lparr>stdin := \<lambda>n. js ''example.com''\<rparr>) (JStr []) start)) = []"
  using fetchContent_not_http [of "js ''ftp://example.com''" demo_world start]
    fetchContent_not_http [of "[]" "demo_world\<lparr>stdin := \<lambda>n. js ''example.com''\<rparr>" start]
  by (simp add: startsWith_def js_def start_def network_calls_def console_log_def emit_def question_def rl_question_def createInterface_def rl_close_def)

section \<open>The orchestrated pipeline\<close>

text \<open>Neither of the first two stages issues a call of a later stage.\<close>

lemma console_console_log: "console (console_log m s) = console s @ [m]"
  by (simp add: console_def console_log_def emit_def)

lemma later_stage_calls_console_log: "later_stage_calls (console_log m s) = later_stage_calls s"
  by (simp add: later_stage_calls_def console_log_def emit_def)

lemma later_stage_calls_question: "later_stage_calls (snd (question w p s)) = later_stage_calls s"
  by (simp add: later_stage_calls_def question_def rl_question_def createInterface_def rl_close_def emit_def)

lemma later_stage_calls_fetchContent_try:
  "later_stage_calls (snd (fetchContent_try w u s)) = later_stage_calls s"
  by (simp add: fetchContent_try_def Let_def later_stage_calls_def console_log_def emit_def
      split: option.splits sum.splits)

lemma later_stage_calls_caught:
  "later_stage_calls
     (snd (case r of Inl e \<Rightarrow> (a e, console_log (m e) s') | Inr d \<Rightarrow> (b d, s')))
     = later_stage_calls s'"
  by (cases r) (simp_all add: later_stage_calls_console_log)

lemma later_stage_calls_fetchContent:
  "later_stage_calls (snd (fetchContent w v s)) = later_stage_calls s"
  by (cases v)
    (simp_all add: fetchContent_def Let_def split_beta later_stage_calls_caught
      later_stage_calls_fetchContent_try later_stage_calls_console_log later_stage_calls_question)

lemma later_stage_calls_segmentText_try:
  "later_stage_calls (snd (segmentText_try w r s)) = later_stage_calls s"
  by (simp add: segmentText_try_def Let_def later_stage_calls_def console_log_def emit_def
      split: option.splits sum.splits)

lemma later_stage_calls_segmentText:
  "later_stage_calls (snd (segmentText w v s)) = later_stage_calls s"
  by (cases v)
    (simp_all add: segmentText_def Let_def split_beta later_stage_calls_caught
      later_stage_calls_segmentText_try later_stage_calls_console_log later_stage_calls_question
      split: option.splits sum.splits)


lemma flowing_console_log: "flowing (console_log m s) = flowing s"
  by (simp add: console_log_def emit_def)

lemma console_rl_close: "console (rl_close s) = console s"
  by (simp add: console_def rl_close_def)

lemma later_stage_calls_rl_close: "later_stage_calls (rl_close s) = later_stage_calls s"
  by (simp add: later_stage_calls_def rl_close_def)

lemma later_stage_calls_rl_question:
  "later_stage_calls (snd (rl_question w p s)) = later_stage_calls s"
  by (simp add: later_stage_calls_def rl_question_def emit_def)

lemma later_stage_calls_createInterface:
  "later_stage_calls (createInterface s) = later_stage_calls s"
  by (simp add: later_stage_calls_def createInterface_def)

text \<open>
  Claim C1. In a run of \<open>main\<close> where \<open>fetchContent\<close> returned a truthy content and
  \<open>segmentText\<close> returns \<open>null\<close>, leaving the state \<open>s5\<close>: \<open>main\<close> takes the failure exit
  of stage 2, and all it does after \<open>segmentText\<close> is to print
  \<open>Text segmentation failed. Exiting.\<close>, the last line of the console, and to close
  its readline interface. The run adds no embedding call and no generative call to the
  trace: \<open>generateEmbeddings\<close> and \<open>generateGeminiResponse\<close> are not invoked.
\<close>

theorem main_halts_when_segmentation_fails:
  assumes "fetchContent w
             (JStr (fst (rl_question w (js ''Enter the URL to fetch content: '')
                           (console_log ([10] @ js ''--- Step 1: Fetching Content ---'')
                              (createInterface s0)))))
             (snd (rl_question w (js ''Enter the URL to fetch content: '')
                     (console_log ([10] @ js ''--- Step 1: Fetching Content ---'')
                        (createInterface s0))))
           = (Returns fetched, s3)"
    and "truthy fetched"
    and "segmentText w fetched (console_log ([10] @ js ''--- Step 2: Segmenting Text ---'') s3)
           = (Returns JNull, s5)"
  shows "main w s0
           = (Returns Failed, rl_close (console_log (js ''Text segmentation failed. Exiting.'') s5))
     \<and> console (snd (main w s0)) = console s5 @ [js ''Text segmentation failed. Exiting.'']
     \<and> later_stage_calls (snd (main w s0)) = later_stage_calls s0"
proof -
  have run: "main w s0
      = (Returns Failed, rl_close (console_log (js ''Text segmentation failed. Exiting.'') s5))"
    using assms
    by (simp add: main_def Let_def split_beta flowing_console_log createInterface_def)
  have "later_stage_calls s3 = later_stage_calls s0"
    using later_stage_calls_fetchContent
      [of w "JStr (fst (rl_question w (js ''Enter the URL to fetch content: '')
                           (console_log ([10] @ js ''--- Step 1: Fetching Content ---'')
                              (createInterface s0))))"
          "snd (rl_question w (js ''Enter the URL to fetch content: '')
                     (console_log ([10] @ js ''--- Step 1: Fetching Content ---'')
                        (createInterface s0)))"]
      assms(1)
    by (simp add: later_stage_calls_rl_question later_stage_calls_console_log
        later_stage_calls_createInterface)
  moreover have "later_stage_calls s5 = later_stage_calls s3"
    using later_stage_calls_segmentText
      [of w fetched "console_log ([10] @ js ''--- Step 2: Segmenting Text ---'') s3"] assms(3)
    by (simp add: later_stage_calls_console_log)
  ultimately show ?thesis
    using run
    by (simp add: console_console_log console_rl_close later_stage_calls_console_log
        later_stage_calls_rl_close)
qed

theorem main_halts_when_segmentation_fails_witness:
  "fst (main (demo_world\<lparr>segment_service := \<lambda>r. Inl (js ''fetch failed'')\<rparr>) start)
     = Returns Failed
   \<and> console (snd (main (demo_world\<lparr>segment_service := \<lambda>r. Inl (js ''fetch failed'')\<rparr>) start))
     = [[10] @ js ''--- Step 1: Fetching Content ---'',
        js ''Fetching content from: https://example.com/article'',
        js ''Content fetched successfully.'',
        [10] @ js ''--- Step 2: Segmenting Text ---'',
        js ''Attempting to segment text...'',
        js ''Error segmenting text: fetch failed'',
        js ''Text segmentation failed. Exiting.'']
   \<and> network_calls (snd (main (demo_world\<lparr>segment_service := \<lambda>r. Inl (js ''fetch failed'')\<rparr>) start))
     = [FetchCall (js ''https://r.jina.ai/https://example.com/article'') (Some (js ''token'')),
        SegmentCall \<lparr>content = js ''Hello world'', return_chunks = True, return_tokens = True,
                     max_chunk_length = 1500\<rparr> (Some (js ''token''))]"
proof -
  let ?w = "demo_world\<lparr>segment_service := \<lambda>r. Inl (js ''fetch failed'')\<rparr>"
  let ?q = "rl_question ?w (js ''Enter the URL to fetch content: '')
              (console_log ([10] @ js ''--- Step 1: Fetching Content ---'') (createInterface start))"
  let ?s3 = "snd (fetchContent ?w (JStr (fst ?q)) (snd ?q))"
  let ?s5 = "snd (segmentText ?w (JStr (js ''Hello world''))
                    (console_log ([10] @ js ''--- Step 2: Segmenting Text ---'') ?s3))"
  have h1: "fetchContent ?w (JStr (fst ?q)) (snd ?q) = (Returns (JStr (js ''Hello world'')), ?s3)"
    by (simp add: fetchContent_def fetchContent_try_def Let_def rl_question_def createInterface_def demo_world_def
        start_def console_log_def emit_def startsWith_def js_def)
  have h2: "truthy (JStr (js ''Hello world''))"
    by (simp add: js_def)
  have h3: "segmentText ?w (JStr (js ''Hello world''))
              (console_log ([10] @ js ''--- Step 2: Segmenting Text ---'') ?s3) = (Returns JNull, ?s5)"
    by (simp add: segmentText_def segmentText_try_def Let_def demo_world_def trim_def is_ws_def js_def)
  have s5: "?s5 = \<lparr>asked = 1, flowing = True, trace =
       [Log ([10] @ js ''--- Step 1: Fetching Content ---''),
        Prompt (js ''Enter the URL to fetch content: ''),
        Log (js ''Fetching content from: https://example.com/article''),
        FetchCall (js ''https://r.jina.ai/https://example.com/article'') (Some (js ''token'')),
        Log (js ''Content fetched successfully.''),
        Log ([10] @ js ''--- Step 2: Segmenting Text ---''),
        Log (js ''Attempting to segment text...''),
        SegmentCall \<lparr>content = js ''Hello world'', return_chunks = True, return_tokens = True,
                     max_chunk_length = 1500\<rparr> (Some (js ''token'')),
        Log (js ''Error segmenting text: fetch failed'')]\<rparr>"
    by (simp add: segmentText_def segmentText_try_def fetchContent_def fetchContent_try_def Let_def
        rl_question_def createInterface_def demo_world_def start_def console_log_def emit_def
        startsWith_def trim_def is_ws_def js_def)
  have m: "main ?w start
      = (Returns Failed, rl_close (console_log (js ''Text segmentation failed. Exiting.'') ?s5))"
    using main_halts_when_segmentation_fails [OF h1 h2 h3] by (rule conjunct1)
  show ?thesis
    unfolding m s5
    by (simp add: console_def network_calls_def console_log_def emit_def rl_close_def js_def)
qed

text \<open>
  Claim C2 fails as stated. When the generative service answers with the empty text,
  \<open>generateGeminiResponse\<close> returns it without any error, a string and not \<open>null\<close>;
  \<open>main\<close> tests the answer for truthiness and takes the failure exit of stage 4. No
  answer is printed.
\<close>

theorem empty_answer_counterexample:
  "fst (generateEmbeddings (demo_world\<lparr>gemini_service := \<lambda>p. Inr []\<rparr>)
          (JArr [JObj [(js ''chunks'', JArr [JStr (js ''Hello world'')])]]) start) = Returns JNull
   \<and> fst (generateGeminiResponse (demo_world\<lparr>gemini_service := \<lambda>p. Inr []\<rparr>)
            (JObj [(js ''chunks'', JArr [JStr (js ''Hello world'')])]) (js ''What is it?'') start)
       = Returns (JStr [])
   \<and> fst (main (demo_world\<lparr>gemini_service := \<lambda>p. Inr []\<rparr>) start) = Returns Failed
   \<and> console (snd (main (demo_world\<lparr>gemini_service := \<lambda>p. Inr []\<rparr>) start))
     = [[10] @ js ''--- Step 1: Fetching Content ---'',
        js ''Fetching content from: https://example.com/article'',
        js ''Content fetched successfully.'',
        [10] @ js ''--- Step 2: Segmenting Text ---'',
        js ''Attempting to segment text...'',
        js ''Text segmentation successful.'',
        [10] @ js ''--- Step 3: Generating Embeddings ---'',
        js ''Attempting to generate embeddings...'',
        js ''Error generating embeddings: Request failed with status code 500'',
        [10] @ js ''--- Step 4: Generating AI Response ---'',
        [10] @ js ''Workflow encountered an error during AI response generation.'']"
  by (simp add: main_def console_def generateGeminiResponse_def formattedPrompt_def
      generateEmbeddings_def segmentText_def
      segmentText_try_def fetchContent_def fetchContent_try_def Let_def rl_question_def
      createInterface_def rl_close_def
      demo_world_def start_def console_log_def emit_def startsWith_def trim_def is_ws_def
      get_prop_def serialize_truncate_def quote_def is_lead_def is_trail_def js_def)

text \<open>
  Claim C2, amended. In a run of \<open>main\<close> where the first two stages returned truthy
  values, \<open>generateEmbeddings\<close> returns \<open>null\<close>, the question of stage 4 is answered
  (\<open>process.stdin\<close> is still flowing) and \<open>generateGeminiResponse\<close> returns a non-empty
  answer text: \<open>main\<close> leaves by the success exit, having printed the answer between the
  lines \<open>--- Gemini's Response ---\<close> and \<open>Workflow completed successfully!\<close>.
\<close>

theorem main_done_when_only_embeddings_fail:
  assumes "fetchContent w
             (JStr (fst (rl_question w (js ''Enter the URL to fetch content: '')
                           (console_log ([10] @ js ''--- Step 1: Fetching Content ---'')
                              (createInterface s0)))))
             (snd (rl_question w (js ''Enter the URL to fetch content: '')
                     (console_log ([10] @ js ''--- Step 1: Fetching Content ---'')
                        (createInterface s0))))
           = (Returns fetched, s3)"
    and "truthy fetched"
    and "segmentText w fetched (console_log ([10] @ js ''--- Step 2: Segmenting Text ---'') s3)
           = (Returns segmented, s5)"
    and "truthy segmented"
    and "generateEmbeddings w (JArr [segmented])
           (console_log ([10] @ js ''--- Step 3: Generating Embeddings ---'') s5)
           = (Returns JNull, s7)"
    and "flowing s7"
    and "generateGeminiResponse w segmented
           (fst (rl_question w (js ''Ask a question about the fetched content: '')
                   (console_log ([10] @ js ''--- Step 4: Generating AI Response ---'') s7)))
           (snd (rl_question w (js ''Ask a question about the fetched content: '')
                   (console_log ([10] @ js ''--- Step 4: Generating AI Response ---'') s7)))
           = (Returns (JStr answer), s10)"
    and "answer \<noteq> []"
  shows "main w s0
           = (Returns Done,
              rl_close
                (console_log ([10] @ js ''Workflow completed successfully!'')
                  (console_log answer (console_log ([10] @ js ''--- Gemini's Response ---'') s10))))
     \<and> console (snd (main w s0))
           = console s10 @ [[10] @ js ''--- Gemini's Response ---'', answer,
                            [10] @ js ''Workflow completed successfully!'']"
proof -
  have run: "main w s0
           = (Returns Done,
              rl_close
                (console_log ([10] @ js ''Workflow completed successfully!'')
                  (console_log answer (console_log ([10] @ js ''--- Gemini's Response ---'') s10))))"
    using assms
    by (simp add: main_def Let_def split_beta flowing_console_log createInterface_def)
  then show ?thesis by (simp add: console_console_log console_rl_close)
qed

theorem main_done_when_only_embeddings_fail_witness:
  "fst (main demo_world start) = Returns Done
   \<and> console (snd (main demo_world start))
     = [[10] @ js ''--- Step 1: Fetching Content ---'',
        js ''Fetching content from: https://example.com/article'',
        js ''Content fetched successfully.'',
        [10] @ js ''--- Step 2: Segmenting Text ---'',
        js ''Attempting to segment text...'',
        js ''Text segmentation successful.'',
        [10] @ js ''--- Step 3: Generating Embeddings ---'',
        js ''Attempting to generate embeddings...'',
        js ''Error generating embeddings: Request failed with status code 500'',
        [10] @ js ''--- Step 4: Generating AI Response ---'',
        [10] @ js ''--- Gemini's Response ---'',
        js ''An answer.'',
        [10] @ js ''Workflow completed successfully!'']"
proof -
  let ?seg = "JObj [(js ''chunks'', JArr [JStr (js ''Hello world'')])]"
  let ?q = "rl_question demo_world (js ''Enter the URL to fetch content: '')
              (console_log ([10] @ js ''--- Step 1: Fetching Content ---'') (createInterface start))"
  let ?s3 = "snd (fetchContent demo_world (JStr (fst ?q)) (snd ?q))"
  let ?s5 = "snd (segmentText demo_world (JStr (js ''Hello world''))
                    (console_log ([10] @ js ''--- Step 2: Segmenting Text ---'') ?s3))"
  let ?s7 = "snd (generateEmbeddings demo_world (JArr [?seg])
                    (console_log ([10] @ js ''--- Step 3: Generating Embeddings ---'') ?s5))"
  let ?q4 = "rl_question demo_world (js ''Ask a question about the fetched content: '')
               (console_log ([10] @ js ''--- Step 4: Generating AI Response ---'') ?s7)"
  let ?s10 = "snd (generateGeminiResponse demo_world ?seg (fst ?q4) (snd ?q4))"
  have h1: "fetchContent demo_world (JStr (fst ?q)) (snd ?q) = (Returns (JStr (js ''Hello world'')), ?s3)"
    by (simp add: fetchContent_def fetchContent_try_def Let_def rl_question_def createInterface_def demo_world_def
        start_def console_log_def emit_def startsWith_def js_def)
  have h2: "truthy (JStr (js ''Hello world''))"
    by (simp add: js_def)
  have h3: "segmentText demo_world (JStr (js ''Hello world''))
              (console_log ([10] @ js ''--- Step 2: Segmenting Text ---'') ?s3) = (Returns ?seg, ?s5)"
    by (simp add: segmentText_def segmentText_try_def Let_def demo_world_def trim_def is_ws_def js_def)
  have h4: "truthy ?seg" by simp
  have h5: "generateEmbeddings demo_world (JArr [?seg])
              (console_log ([10] @ js ''--- Step 3: Generating Embeddings ---'') ?s5)
            = (Returns JNull, ?s7)"
    by (simp add: generateEmbeddings_def Let_def demo_world_def get_prop_def
        serialize_truncate_def quote_def is_lead_def is_trail_def js_def)
  have h6: "flowing ?s7"
    by (simp add: generateEmbeddings_def segmentText_def segmentText_try_def fetchContent_def
        fetchContent_try_def Let_def rl_question_def createInterface_def demo_world_def start_def
        console_log_def emit_def startsWith_def trim_def is_ws_def get_prop_def
        serialize_truncate_def quote_def is_lead_def is_trail_def js_def)
  have h7: "generateGeminiResponse demo_world ?seg (fst ?q4) (snd ?q4)
            = (Returns (JStr (js ''An answer.'')), ?s10)"
    by (simp add: generateGeminiResponse_def formattedPrompt_def Let_def demo_world_def
        quote_def is_lead_def is_trail_def js_def)
  have h8: "js ''An answer.'' \<noteq> []" by (simp add: js_def)
  have c10: "console ?s10
     = [[10] @ js ''--- Step 1: Fetching Content ---'',
        js ''Fetching content from: https://example.com/article'',
        js ''Content fetched successfully.'',
        [10] @ js ''--- Step 2: Segmenting Text ---'',
        js ''Attempting to segment text...'',
        js ''Text segmentation successful.'',
        [10] @ js ''--- Step 3: Generating Embeddings ---'',
        js ''Attempting to generate embeddings...'',
        js ''Error generating embeddings: Request failed with status code 500'',
        [10] @ js ''--- Step 4: Generating AI Response ---'']"
    by (simp add: formattedPrompt_def console_def generateGeminiResponse_def generateEmbeddings_def segmentText_def
        segmentText_try_def fetchContent_def fetchContent_try_def Let_def rl_question_def
        createInterface_def rl_close_def question_def
        demo_world_def start_def console_log_def emit_def startsWith_def trim_def is_ws_def
        get_prop_def serialize_truncate_def quote_def is_lead_def is_trail_def js_def)
  note t = main_done_when_only_embeddings_fail [OF h1 h2 h3 h4 h5 h6 h7 h8]
  have m: "fst (main demo_world start) = Returns Done"
    using t by simp
  have c: "console (snd (main demo_world start))
      = console ?s10 @ [[10] @ js ''--- Gemini's Response ---'', js ''An answer.'',
                        [10] @ js ''Workflow completed successfully!'']"
    using t by (rule conjunct2)
  show ?thesis
    using m c c10 by simp
qed

text \<open>
  The last test of \<open>main\<close> is on truthiness: an answer that is \<open>null\<close> or the empty
  string takes the failure exit of stage 4.
\<close>

lemma main_failed_when_answer_falsy:
  assumes "fetchContent w
             (JStr (fst (rl_question w (js ''Enter the URL to fetch content: '')
                           (console_log ([10] @ js ''--- Step 1: Fetching Content ---'')
                              (createInterface s0)))))
             (snd (rl_question w (js ''Enter the URL to fetch content: '')
                     (console_log ([10] @ js ''--- Step 1: Fetching Content ---'')
                        (createInterface s0))))
           = (Returns fetched, s3)"
    and "truthy fetched"
    and "segmentText w fetched (console_log ([10] @ js ''--- Step 2: Segmenting Text ---'') s3)
           = (Returns segmented, s5)"
    and "truthy segmented"
    and "generateEmbeddings w (JArr [segmented])
           (console_log ([10] @ js ''--- Step 3: Generating Embeddings ---'') s5)
           = (Returns embeddings, s7)"
    and "flowing s7"
    and "generateGeminiResponse w segmented
           (fst (rl_question w (js ''Ask a question about the fetched content: '')
                   (console_log ([10] @ js ''--- Step 4: Generating AI Response ---'') s7)))
           (snd (rl_question w (js ''Ask a question about the fetched content: '')
                   (console_log ([10] @ js ''--- Step 4: Generating AI Response ---'') s7)))
           = (Returns answer, s10)"
    and "\<not> truthy answer"
  shows "main w s0
           = (Returns Failed,
              rl_close
                (console_log
                  ([10] @ js ''Workflow encountered an error during AI response generation.'') s10))"
  using assms
  by (simp add: main_def Let_def split_beta flowing_console_log createInterface_def)

text \<open>
  When \<open>process.stdin\<close> is paused at stage 4, the question of \<open>main\<close> is written and
  never answered: \<open>generateGeminiResponse\<close> is not reached.
\<close>

lemma main_pending_when_stdin_paused:
  assumes "fetchContent w
             (JStr (fst (rl_question w (js ''Enter the URL to fetch content: '')
                           (console_log ([10] @ js ''--- Step 1: Fetching Content ---'')
                              (createInterface s0)))))
             (snd (rl_question w (js ''Enter the URL to fetch content: '')
                     (console_log ([10] @ js ''--- Step 1: Fetching Content ---'')
                        (createInterface s0))))
           = (Returns fetched, s3)"
    and "truthy fetched"
    and "segmentText w fetched (console_log ([10] @ js ''--- Step 2: Segmenting Text ---'') s3)
           = (Returns segmented, s5)"
    and "truthy segmented"
    and "generateEmbeddings w (JArr [segmented])
           (console_log ([10] @ js ''--- Step 3: Generating Embeddings ---'') s5)
           = (Returns embeddings, s7)"
    and "\<not> flowing s7"
  shows "main w s0
           = (Pending,
              emit (Prompt (js ''Ask a question about the fetched content: ''))
                (console_log ([10] @ js ''--- Step 4: Generating AI Response ---'') s7))"
  using assms
  by (simp add: main_def Let_def split_beta flowing_console_log createInterface_def)

text \<open>
  That is the case when the user enters an empty line at the first question:
  \<open>fetchContent\<close> then asks for the URL on an interface of its own, and closing it
  pauses \<open>process.stdin\<close>.
\<close>

lemma main_pending_after_nested_prompt:
  "fst (main (demo_world\<lparr>stdin := \<lambda>n. if n = 0 then []
                                       else if n = 1 then js ''https://example.com/article''
                                       else js ''What is it?''\<rparr>) start) = Pending
   \<and> network_calls
        (snd (main (demo_world\<lparr>stdin := \<lambda>n. if n = 0 then []
                                       else if n = 1 then js ''https://example.com/article''
                                       else js ''What is it?''\<rparr>) start))
     = [FetchCall (js ''https://r.jina.ai/https://example.com/article'') (Some (js ''token'')),
        SegmentCall \<lparr>content = js ''Hello world'', return_chunks = True, return_tokens = True,
                     max_chunk_length = 1500\<rparr> (Some (js ''token'')),
        EmbedCall
          \<lparr>model = js ''jina-clip-v2'', normalized = True, embedding_type = js ''float'',
           input = [JObj [(js ''text'',
                           JStr ([123, 34] @ js ''chunks'' @ [34, 58, 91, 34] @ js ''Hello world''
                                 @ [34, 93, 125]))]]\<rparr>
          (Some (js ''token''))]"
  by (simp add: main_def network_calls_def build_request_def substring_0 generateEmbeddings_def
      segmentText_def
      segmentText_try_def fetchContent_def fetchContent_try_def Let_def rl_question_def
      createInterface_def rl_close_def question_def
      demo_world_def start_def console_log_def emit_def startsWith_def trim_def is_ws_def
      get_prop_def serialize_truncate_def quote_def is_lead_def is_trail_def js_def)

section \<open>Errors at the stage boundary\<close>

text \<open>
  \<open>generateGeminiResponse\<close> returns on every document and question: its whole body
  is inside the \<open>try\<close>. \<open>segmentText\<close> returns on every value that can be serialized, and
  \<open>fetchContent\<close> on every string: what their \<open>try\<close> blocks meet is caught and turned
  into \<open>null\<close>.
\<close>

lemma generateGeminiResponse_returns:
  "\<exists>v s'. generateGeminiResponse w document qu s = (Returns v, s')"
  by (simp add: generateGeminiResponse_def Let_def split: sum.splits)

lemma segmentText_try_cases:
  "(\<exists>d s'. segmentText_try w r s = (Inr d, s')) \<or> (\<exists>e s'. segmentText_try w r s = (Inl e, s'))"
  by (cases "fst (segmentText_try w r s)") (auto simp add: prod_eq_iff)

lemma segmentText_returns:
  assumes "JSON_stringify arg = Inr r"
  shows "\<exists>v s'. segmentText w arg s = (Returns v, s')"
proof -
  have caught: "\<exists>v s'. (case segmentText_try w q s1 of
                     (Inr d, s2) \<Rightarrow> (Returns d, s2)
                   | (Inl e, s2) \<Rightarrow>
                       (Returns JNull, console_log (js ''Error segmenting text: '' @ message e) s2))
                 = (Returns v, s')" for q s1
    using segmentText_try_cases [of w q s1] by auto
  show ?thesis
  proof (cases "truthy (if arg = JUndefined then JNull else arg)")
    case False
    then show ?thesis
      using caught
      by (simp add: segmentText_def Let_def split_beta question_def rl_question_def)
  next
    case True
    then have t: "truthy arg" by (simp split: if_splits)
    then obtain x where x: "r = Some x"
      using assms by (cases arg) (auto split: sum.splits)
    from t have nu: "arg \<noteq> JUndefined" by auto
    show ?thesis
      using t nu x assms caught by (cases arg) (simp_all add: segmentText_def Let_def)
  qed
qed

lemma fetchContent_try_cases:
  "(\<exists>d s'. fetchContent_try w u s = (Inr d, s')) \<or> (\<exists>e s'. fetchContent_try w u s = (Inl e, s'))"
  by (cases "fst (fetchContent_try w u s)") (auto simp add: prod_eq_iff)

lemma fetchContent_returns_on_string:
  "\<exists>v s'. fetchContent w (JStr u) s = (Returns v, s')"
proof -
  have caught: "\<exists>v s'. (case fetchContent_try w x s1 of
                  (Inr d, s2) \<Rightarrow> (Returns d, s2)
                | (Inl e, s2) \<Rightarrow>
                    (Returns JNull, console_log (js ''Error fetching content: '' @ message e) s2))
                 = (Returns v, s')" for x s1
    using fetchContent_try_cases [of w x s1] by auto
  show ?thesis
    using caught by (simp add: fetchContent_def Let_def question_def rl_question_def)
qed

text \<open>
  Claim C3 does not hold of the code. The normalization in \<open>generateEmbeddings\<close> and
  the test \<open>url.startsWith\<close> in \<open>fetchContent\<close> stand before the \<open>try\<close>, so a
  \<open>TypeError\<close> raised there leaves the function: for an input object whose \<open>text\<close> is
  the number 5, for the input \<open>null\<close> in the array, and for a url that is a number. The
  state is unchanged: nothing is printed and no call is made.
\<close>

theorem type_errors_escape:
  "generateEmbeddings w (JArr [JObj [(js ''text'', JNum (Nonzero (js ''5'')))]]) s
     = (Throws (TypeError (js ''item.text.substring is not a function'')), s)
   \<and> generateEmbeddings w (JArr [JNull]) s
     = (Throws (TypeError (js ''Cannot read properties of null (reading 'text')'')), s)
   \<and> fetchContent w (JNum (Nonzero (js ''5''))) s
     = (Throws (TypeError (js ''url.startsWith is not a function'')), s)"
  by (simp add: generateEmbeddings_def fetchContent_def get_prop_def text_substring_def Let_def)

theorem type_errors_escape_witness:
  "fst (main (demo_world\<lparr>segment_service :=
                 \<lambda>r. Inr (JObj [(js ''text'', JNum (Nonzero (js ''5'')))])\<rparr>) start)
     = Throws (TypeError (js ''item.text.substring is not a function''))"
proof -
  let ?seg = "JObj [(js ''text'', JNum (Nonzero (js ''5'')))]"
  let ?w = "demo_world\<lparr>segment_service := \<lambda>r. Inr ?seg\<rparr>"
  let ?q = "rl_question ?w (js ''Enter the URL to fetch content: '')
              (console_log ([10] @ js ''--- Step 1: Fetching Content ---'') (createInterface start))"
  let ?s3 = "snd (fetchContent ?w (JStr (fst ?q)) (snd ?q))"
  let ?s5 = "snd (segmentText ?w (JStr (js ''Hello world''))
                    (console_log ([10] @ js ''--- Step 2: Segmenting Text ---'') ?s3))"
  let ?s6 = "console_log ([10] @ js ''--- Step 3: Generating Embeddings ---'') ?s5"
  have h1: "fst (fetchContent ?w (JStr (fst ?q)) (snd ?q)) = Returns (JStr (js ''Hello world''))"
    by (simp add: fetchContent_def fetchContent_try_def Let_def rl_question_def createInterface_def demo_world_def
        start_def console_log_def emit_def startsWith_def js_def)
  have h3: "fst (segmentText ?w (JStr (js ''Hello world''))
              (console_log ([10] @ js ''--- Step 2: Segmenting Text ---'') ?s3)) = Returns ?seg"
    by (simp add: segmentText_def segmentText_try_def Let_def demo_world_def trim_def is_ws_def js_def)
  have e: "fst (generateEmbeddings ?w (JArr [?seg]) ?s6)
      = Throws (TypeError (js ''item.text.substring is not a function''))"
    using type_errors_escape [of ?w ?s6] by simp
  show ?thesis
    using h1 h3 e
    by (simp add: main_def Let_def split_beta flowing_console_log createInterface_def js_def)
qed

end
